theory Spec2Isabelle
  imports Main
begin

section \<open>JavaScript strings and numbers as blockchain.js uses them\<close>

text \<open>
  Strings are \<open>char list\<close> (one \<open>char\<close> per code unit, restricted to the 8-bit range).
  Numbers are \<open>int\<close>/\<open>nat\<close>: every number the class computes with is a chain height or a
  count of seconds, far below \<open>2^53\<close>, where double arithmetic is exact; a parsed time stamp
  of larger magnitude is so far from the clock that the one comparison made with it has the
  same outcome in exact and in double arithmetic.
\<close>

definition digit_char :: "nat \<Rightarrow> char" where
  "digit_char d = ''0123456789abcdef'' ! (d mod 16)"

text \<open>\<open>Number.prototype.toString()\<close> on an integer: the decimal digits, after a sign.\<close>

function show_digits :: "int \<Rightarrow> string" where
  "show_digits n =
     (if n < 10 then [digit_char (nat n)]
      else show_digits (n div 10) @ [digit_char (nat (n mod 10))])"
  by pat_completeness auto
termination
  by (relation "measure nat") auto

declare show_digits.simps [simp del]

definition show_int :: "int \<Rightarrow> string" where
  "show_int i = (if i < 0 then CHR ''-'' # show_digits (- i) else show_digits i)"

text \<open>\<open>String.prototype.split(':')\<close>: the pieces between the separators, at least one piece.\<close>

fun split :: "char \<Rightarrow> string \<Rightarrow> string list" where
  "split sep [] = [[]]"
| "split sep (c # cs) =
     (if c = sep then [] # split sep cs
      else (case split sep cs of
              [] \<Rightarrow> [[c]]
            | piece # pieces \<Rightarrow> (c # piece) # pieces))"

text \<open>Array indexing \<open>xs[i]\<close>: \<open>None\<close> is \<open>undefined\<close>.\<close>

fun index :: "'a list \<Rightarrow> nat \<Rightarrow> 'a option" where
  "index [] i = None"
| "index (x # xs) 0 = Some x"
| "index (x # xs) (Suc i) = index xs i"

text \<open>
  \<open>parseInt(string)\<close> without a radix (ECMAScript, sec. parseInt): leading white space is
  dropped, then an optional sign, then \<open>0x\<close>/\<open>0X\<close> selects radix 16, otherwise the radix
  is 10; the longest prefix of digits of that radix is the value; no digit gives \<open>NaN\<close>
  (\<open>None\<close>).
\<close>

definition is_white_space :: "char \<Rightarrow> bool" where
  "is_white_space c \<longleftrightarrow> c \<in> set [CHR 0x09, CHR 0x0A, CHR 0x0B, CHR 0x0C, CHR 0x0D, CHR 0x20, CHR 0xA0]"

definition digit_value :: "nat \<Rightarrow> char \<Rightarrow> nat option" where
  "digit_value radix c =
     (let k = (of_char c :: nat);
          v = (if 48 \<le> k \<and> k \<le> 57 then Some (k - 48)
               else if 97 \<le> k \<and> k \<le> 122 then Some (k - 87)
               else if 65 \<le> k \<and> k \<le> 90 then Some (k - 55)
               else None)
      in case v of None \<Rightarrow> None | Some d \<Rightarrow> if d < radix then Some d else None)"

fun digits_prefix :: "nat \<Rightarrow> string \<Rightarrow> nat list" where
  "digits_prefix radix [] = []"
| "digits_prefix radix (c # cs) =
     (case digit_value radix c of None \<Rightarrow> [] | Some d \<Rightarrow> d # digits_prefix radix cs)"

definition math_int :: "nat \<Rightarrow> nat list \<Rightarrow> int" where
  "math_int radix ds = foldl (\<lambda>acc d. acc * int radix + int d) 0 ds"

definition strip_sign :: "string \<Rightarrow> int \<times> string" where
  "strip_sign s =
     (case s of
        [] \<Rightarrow> (1, [])
      | c # cs \<Rightarrow> if c = CHR ''-'' then (- 1, cs) else if c = CHR ''+'' then (1, cs) else (1, s))"

definition strip_prefix :: "string \<Rightarrow> nat \<times> string" where
  "strip_prefix s =
     (case s of
        c # d # cs \<Rightarrow> if c = CHR ''0'' \<and> (d = CHR ''x'' \<or> d = CHR ''X'') then (16, cs) else (10, s)
      | _ \<Rightarrow> (10, s))"

definition parseInt_string :: "string \<Rightarrow> int option" where
  "parseInt_string inputString =
     (let (sign, s) = strip_sign (dropWhile is_white_space inputString);
          (radix, s) = strip_prefix s;
          z = digits_prefix radix s
      in if z = [] then None else Some (sign * math_int radix z))"

text \<open>
  \<open>parseInt\<close> applied to the result of an array index: \<open>undefined\<close> is first converted to
  the string \<open>"undefined"\<close>, which has no digit.
\<close>

definition parseInt :: "string option \<Rightarrow> int option" where
  "parseInt v = (case v of None \<Rightarrow> parseInt_string ''undefined'' | Some s \<Rightarrow> parseInt_string s)"

subsection \<open>JSON.stringify\<close>

text \<open>\<open>QuoteJSONString\<close>: the escapes of \<open>JSON.stringify\<close> on a string.\<close>

definition json_escape :: "char \<Rightarrow> string" where
  "json_escape c =
     (let k = (of_char c :: nat) in
      if c = CHR 0x22 then [CHR 0x5C, CHR 0x22]
      else if c = CHR 0x5C then [CHR 0x5C, CHR 0x5C]
      else if c = CHR 0x08 then [CHR 0x5C, CHR ''b'']
      else if c = CHR 0x09 then [CHR 0x5C, CHR ''t'']
      else if c = CHR 0x0A then [CHR 0x5C, CHR ''n'']
      else if c = CHR 0x0C then [CHR 0x5C, CHR ''f'']
      else if c = CHR 0x0D then [CHR 0x5C, CHR ''r'']
      else if k < 32 then [CHR 0x5C, CHR ''u'', CHR ''0'', CHR ''0'', digit_char (k div 16), digit_char (k mod 16)]
      else [c])"

definition json_quote :: "string \<Rightarrow> string" where
  "json_quote s = CHR 0x22 # concat (map json_escape s) @ [CHR 0x22]"

definition json_nullable :: "string option \<Rightarrow> string" where
  "json_nullable v = (case v of None \<Rightarrow> ''null'' | Some s \<Rightarrow> json_quote s)"

fun json_members :: "(string \<times> string) list \<Rightarrow> string" where
  "json_members [] = []"
| "json_members [(k, v)] = json_quote k @ '':'' @ v"
| "json_members ((k, v) # kvs) = json_quote k @ '':'' @ v @ '','' @ json_members kvs"

definition json_object :: "(string \<times> string) list \<Rightarrow> string" where
  "json_object kvs = ''{'' @ json_members kvs @ ''}''"

section \<open>The Block class\<close>

text \<open>
  \<open>block.js\<close> is not among the sources; \<open>blockchain.js\<close> reads and writes the fields
  \<open>hash\<close>, \<open>height\<close>, \<open>time\<close> and \<open>previousBlockHash\<close> of a block and calls its
  constructor, \<open>validate()\<close> and \<open>getBData()\<close>. The payload handed to the constructor is
  either the genesis sentinel \<open>{data: 'Genesis Block'}\<close> or the object
  \<open>{walletAddress, message, signature, star}\<close> built by \<open>submitStar\<close>; a star is a map of
  descriptive text fields.
\<close>

type_synonym star = "(string \<times> string) list"

datatype data =
    Genesis_Block
  | Star_data string string string star

record block =
  hash :: "string option"
  height :: int
  body :: data
  time :: int
  previousBlockHash :: "string option"

text \<open>
  Modelled from the spec: the constructor of \<open>Block\<close> (\<open>block.js\<close> is missing). It stores
  the encoded payload as body; hash and previous hash are absent until \<open>_addBlock\<close> assigns
  them. Encoding and decoding are mutually inverse (spec 4.4), so the record keeps the payload
  itself and the encoding is applied where the block is serialised.
\<close>

definition Block :: "data \<Rightarrow> block" where
  "Block d = \<lparr>hash = None, height = 0, body = d, time = 0, previousBlockHash = None\<rparr>"

text \<open>
  Modelled from the spec: \<open>encode(body)\<close> (\<open>block.js\<close> is missing): the JSON text of the
  payload, written in hexadecimal.
\<close>

definition hex :: "string \<Rightarrow> string" where
  "hex s = concat (map (\<lambda>c. [digit_char ((of_char c :: nat) div 16), digit_char ((of_char c :: nat) mod 16)]) s)"

definition json_data :: "data \<Rightarrow> string" where
  "json_data d =
     (case d of
        Genesis_Block \<Rightarrow> json_object [(''data'', json_quote ''Genesis Block'')]
      | Star_data address message signature star \<Rightarrow>
          json_object
            [(''walletAddress'', json_quote address),
             (''message'', json_quote message),
             (''signature'', json_quote signature),
             (''star'', json_object (map (\<lambda>(k, v). (k, json_quote v)) star))])"

definition encode :: "data \<Rightarrow> string" where
  "encode d = hex (json_data d)"

text \<open>
  \<open>JSON.stringify(block)\<close>: every own property of the object in creation order, the hash
  property included with the value it has at that moment (\<open>null\<close> when absent). The time is
  the string of decimal digits that \<open>_addBlock\<close> stores.
\<close>

definition JSON_stringify :: "block \<Rightarrow> string" where
  "JSON_stringify b =
     json_object
       [(''hash'', json_nullable (hash b)),
        (''height'', show_int (height b)),
        (''body'', json_quote (encode (body b))),
        (''time'', json_quote (show_int (time b))),
        (''previousBlockHash'', json_nullable (previousBlockHash b))]"

text \<open>
  Modelled from the spec: \<open>Block.validate()\<close> (\<open>block.js\<close> is missing) recomputes the
  digest of the block's content with the stored hash left out, that is with the hash property
  reset to \<open>null\<close> as it was when \<open>_addBlock\<close> digested the block, and compares it to the
  stored hash. \<open>SHA256\<close> is the digest function of \<open>crypto-js\<close> followed by
  \<open>toString()\<close>; it is a parameter of the model.
\<close>

definition validate :: "(string \<Rightarrow> string) \<Rightarrow> block \<Rightarrow> bool" where
  "validate SHA256 self \<longleftrightarrow> hash self = Some (SHA256 (JSON_stringify (self\<lparr>hash := None\<rparr>)))"

text \<open>Modelled from the spec: \<open>Block.getBData()\<close> (\<open>block.js\<close> is missing) decodes the body.\<close>

definition getBData :: "block \<Rightarrow> data" where
  "getBData self = body self"

text \<open>Property reads on a decoded body; \<open>None\<close> is \<open>undefined\<close>.\<close>

definition walletAddress_of :: "data \<Rightarrow> string option" where
  "walletAddress_of d = (case d of Genesis_Block \<Rightarrow> None | Star_data address message signature star \<Rightarrow> Some address)"

definition star_of :: "data \<Rightarrow> star option" where
  "star_of d = (case d of Genesis_Block \<Rightarrow> None | Star_data address message signature s \<Rightarrow> Some s)"

section \<open>The Blockchain class\<close>

record blockchain =
  chain :: "block list"
  chain_height :: int

text \<open>
  \<open>chain_height\<close> is the field \<open>this.height\<close> (the name \<open>height\<close> is the block's).
  Blocks are values: the callers in this file hand \<open>_addBlock\<close> a block fresh from the
  constructor, so no block of the chain is aliased by the argument. The functions of this
  section take each operation as a whole, from its call to the settling of its promise with
  no other call in between; calls that overlap are the subject of a later section.
\<close>

definition getChainHeight :: "blockchain \<Rightarrow> int" where
  "getChainHeight self = chain_height self"

text \<open>\<open>getBlockByHeight\<close>: the first block of that height, or \<open>null\<close> (\<open>None\<close>).\<close>

definition getBlockByHeight :: "blockchain \<Rightarrow> int \<Rightarrow> block option" where
  "getBlockByHeight self h =
     (let block = index (filter (\<lambda>p. height p = h) (chain self)) 0
      in case block of Some b \<Rightarrow> Some b | None \<Rightarrow> None)"

text \<open>
  \<open>getBlockByHash\<close> resolves with the value of \<open>filter\<close>, an array, when that value is
  truthy, and with \<open>null\<close> otherwise. Every object is truthy, the empty array too.
\<close>

datatype query_result = Array "block list" | Null

definition truthy_array :: "block list \<Rightarrow> bool" where
  "truthy_array xs = True"

definition getBlockByHash :: "blockchain \<Rightarrow> string \<Rightarrow> query_result" where
  "getBlockByHash self h =
     (let block = filter (\<lambda>p. hash p = Some h) (chain self)
      in if truthy_array block then Array block else Null)"

subsection \<open>Callbacks that are started and not awaited\<close>

text \<open>
  \<open>validateChain\<close> and \<open>getStarsByWalletAddress\<close> start one \<open>async\<close> callback per block
  with \<open>forEach\<close> and resolve their promise with the result array right after. Each callback
  runs up to its first \<open>await\<close> at once and continues from the job queue, which is served
  first in, first out. The promises a callback waits for (\<open>block.validate()\<close>,
  \<open>block.getBData()\<close>, and \<open>undefined\<close> made into a promise) are settled when the
  \<open>await\<close> is reached, as is every promise that \<open>blockchain.js\<close> itself creates, so each
  \<open>await\<close> costs one turn of the queue. The caller that awaits the returned promise is one
  more job in the same queue; what it finds in the array is what has been pushed by then.
\<close>

datatype log_entry =
    is_Block_invalid: Block_invalid int
  | PreviousBlock_hash_invalid int

text \<open>
  \<open>Block_invalid h\<close> is \<open>{Error: `Block ${h} is invalid`}\<close> and
  \<open>PreviousBlock_hash_invalid h\<close> is
  \<open>{Error: `For Block ${h}, the PreviousBlock hash is invalid`}\<close>.
\<close>

datatype job =
    After_validate block bool
  | After_previous_hash block
  | After_getBData data string
  | Caller_resumes

record arrays =
  pushed_errors :: "log_entry list"
  pushed_stars :: "star option list"
  seen_errors :: "log_entry list"
  seen_stars :: "star option list"

text \<open>
  \<open>pushed_errors\<close> is the array \<open>errorLog\<close> and \<open>pushed_stars\<close> the array \<open>stars\<close>;
  the two other fields hold what the awaiting caller found in them when it resumed.
\<close>

definition no_arrays :: arrays where
  "no_arrays = \<lparr>pushed_errors = [], pushed_stars = [], seen_errors = [], seen_stars = []\<rparr>"

text \<open>
  One job. In \<open>validateChain\<close> the callback, resumed with the value of \<open>block.validate()\<close>,
  pushes the invalid-block entry when that value is false. When it is true and the height is
  positive it evaluates \<open>await self.getBlockByHeight(block.height - 1).hash\<close>: the property
  \<open>hash\<close> is read from the promise that \<open>getBlockByHeight\<close> returns, which has no such
  property, so \<open>undefined\<close> is awaited, and on the next turn \<open>previousBlockHash\<close> is
  compared with \<open>undefined\<close> by \<open>!=\<close>, which holds unless it is \<open>null\<close>.
  In \<open>getStarsByWalletAddress\<close> the callback, resumed with the decoded body, compares
  \<open>body.walletAddress\<close> with the address (a string) and pushes \<open>body.star\<close>.
\<close>

fun run_job :: "job \<Rightarrow> arrays \<Rightarrow> arrays \<times> job list" where
  "run_job (After_validate block valid) a =
     (if valid then
        (if height block > 0 then (a, [After_previous_hash block]) else (a, []))
      else (a\<lparr>pushed_errors := pushed_errors a @ [Block_invalid (height block)]\<rparr>, []))"
| "run_job (After_previous_hash block) a =
     (if previousBlockHash block \<noteq> None
      then (a\<lparr>pushed_errors := pushed_errors a @ [PreviousBlock_hash_invalid (height block)]\<rparr>, [])
      else (a, []))"
| "run_job (After_getBData decoded address) a =
     (if walletAddress_of decoded = Some address
      then (a\<lparr>pushed_stars := pushed_stars a @ [star_of decoded]\<rparr>, [])
      else (a, []))"
| "run_job Caller_resumes a = (a\<lparr>seen_errors := pushed_errors a, seen_stars := pushed_stars a\<rparr>, [])"

fun job_turns :: "job \<Rightarrow> nat" where
  "job_turns (After_validate block valid) = 2"
| "job_turns (After_previous_hash block) = 1"
| "job_turns (After_getBData decoded address) = 1"
| "job_turns Caller_resumes = 1"

text \<open>The job queue, run until it is empty. A job leaves fewer turns behind than it had.\<close>

function run_jobs :: "job list \<Rightarrow> arrays \<Rightarrow> arrays" where
  "run_jobs [] a = a"
| "run_jobs (j # queue) a = run_jobs (queue @ snd (run_job j a)) (fst (run_job j a))"
  by pat_completeness auto
termination
proof (relation "measure (\<lambda>(queue, a). sum_list (map job_turns queue))")
  show "wf (measure (\<lambda>(queue, a). sum_list (map job_turns queue)))"
    by simp
next
  fix j :: job and queue :: "job list" and a :: arrays
  have "sum_list (map job_turns (snd (run_job j a))) < job_turns j"
    by (cases j) auto
  then show "((queue @ snd (run_job j a), fst (run_job j a)), j # queue, a)
      \<in> measure (\<lambda>(queue, a). sum_list (map job_turns queue))"
    by simp
qed

text \<open>
  \<open>validateChain\<close>: the callbacks are started in chain order, each calling
  \<open>block.validate()\<close>; then the promise is resolved with \<open>errorLog\<close> and the caller awaits
  it. \<open>validateChain\<close> is the content of the array when the awaiting caller resumes,
  \<open>validateChain_settled\<close> its content when no job is left.
\<close>

definition validateChain_jobs :: "(string \<Rightarrow> string) \<Rightarrow> blockchain \<Rightarrow> job list" where
  "validateChain_jobs SHA256 self =
     map (\<lambda>block. After_validate block (validate SHA256 block)) (chain self) @ [Caller_resumes]"

definition validateChain :: "(string \<Rightarrow> string) \<Rightarrow> blockchain \<Rightarrow> log_entry list" where
  "validateChain SHA256 self = seen_errors (run_jobs (validateChain_jobs SHA256 self) no_arrays)"

definition validateChain_settled :: "(string \<Rightarrow> string) \<Rightarrow> blockchain \<Rightarrow> log_entry list" where
  "validateChain_settled SHA256 self = pushed_errors (run_jobs (validateChain_jobs SHA256 self) no_arrays)"

text \<open>\<open>getStarsByWalletAddress\<close>, in the same way; the address is a string.\<close>

definition getStars_jobs :: "blockchain \<Rightarrow> string \<Rightarrow> job list" where
  "getStars_jobs self address =
     map (\<lambda>block. After_getBData (getBData block) address) (chain self) @ [Caller_resumes]"

definition getStarsByWalletAddress :: "blockchain \<Rightarrow> string \<Rightarrow> star option list" where
  "getStarsByWalletAddress self address = seen_stars (run_jobs (getStars_jobs self address) no_arrays)"

subsection \<open>Appending\<close>

text \<open>
  \<open>_addBlock\<close> resolves with the block, or with the string \<open>"Invalid block"\<close> from its
  \<open>catch\<close>. The only statement of the \<open>try\<close> that can throw is \<open>previousBlock.hash\<close>,
  when \<open>getBlockByHeight\<close> gave \<open>null\<close>. \<open>now\<close> is the clock in seconds, the number
  written by \<open>new Date().getTime().toString().slice(0,-3)\<close>.
\<close>

datatype js_value = is_Block_value: Block_value block | String_value string

definition push_and_validate :: "(string \<Rightarrow> string) \<Rightarrow> block \<Rightarrow> blockchain \<Rightarrow> js_value \<times> blockchain" where
  "push_and_validate SHA256 block self =
     (let block = block\<lparr>hash := Some (SHA256 (JSON_stringify block))\<rparr>;
          self = self\<lparr>chain := chain self @ [block]\<rparr>;
          errorLog = validateChain SHA256 self
      in if length errorLog > 0
         then (Block_value block,
               self\<lparr>chain := butlast (chain self), chain_height := chain_height self - 1\<rparr>)
         else (Block_value block, self))"

definition addBlock :: "(string \<Rightarrow> string) \<Rightarrow> int \<Rightarrow> block \<Rightarrow> blockchain \<Rightarrow> js_value \<times> blockchain" where
  "addBlock SHA256 now block self =
     (let currentChainHeight = chain_height self;
          newChainHeight = currentChainHeight + 1;
          block = block\<lparr>height := newChainHeight\<rparr>;
          self = self\<lparr>chain_height := newChainHeight\<rparr>;
          block = block\<lparr>time := now\<rparr>
      in if newChainHeight > 0 then
           (case getBlockByHeight self currentChainHeight of
              None \<Rightarrow> (String_value ''Invalid block'', self)
            | Some previousBlock \<Rightarrow>
                push_and_validate SHA256 (block\<lparr>previousBlockHash := hash previousBlock\<rparr>) self)
         else push_and_validate SHA256 (block\<lparr>previousBlockHash := None\<rparr>) self)"

definition initializeChain :: "(string \<Rightarrow> string) \<Rightarrow> int \<Rightarrow> blockchain \<Rightarrow> blockchain" where
  "initializeChain SHA256 now self =
     (if chain_height self = - 1 then snd (addBlock SHA256 now (Block Genesis_Block) self) else self)"

definition Blockchain :: "(string \<Rightarrow> string) \<Rightarrow> int \<Rightarrow> blockchain" where
  "Blockchain SHA256 now = initializeChain SHA256 now \<lparr>chain = [], chain_height = - 1\<rparr>"

subsection \<open>The ownership challenge\<close>

definition requestMessageOwnershipVerification :: "int \<Rightarrow> string \<Rightarrow> string" where
  "requestMessageOwnershipVerification now address = address @ '':'' @ show_int now @ '':starRegistry''"

text \<open>
  \<open>bitcoinMessage.verify\<close> is a parameter: it returns a boolean or throws. \<open>submitStar\<close>
  settles its promise at most once: a \<open>resolve\<close> after a \<open>reject\<close> changes nothing, but
  its argument is evaluated all the same. The result is the settled promise, the arguments of
  the calls of \<open>verify\<close> that were made, and the chain afterwards.
\<close>

datatype verification = Returns bool | Throws

datatype promise = is_Resolved: Resolved js_value | Rejected string

type_synonym verifier = "string \<Rightarrow> string \<Rightarrow> string \<Rightarrow> verification"

text \<open>\<open>currentTime - timeStamp <= 5 * 60\<close>; a comparison with \<open>NaN\<close> is false.\<close>

definition within_five_minutes :: "int \<Rightarrow> int option \<Rightarrow> bool" where
  "within_five_minutes currentTime timeStamp =
     (case timeStamp of None \<Rightarrow> False | Some t \<Rightarrow> currentTime - t \<le> 5 * 60)"

definition submitStar ::
  "(string \<Rightarrow> string) \<Rightarrow> verifier \<Rightarrow> int \<Rightarrow> string \<Rightarrow> string \<Rightarrow> string \<Rightarrow> star \<Rightarrow> blockchain
    \<Rightarrow> promise \<times> (string \<times> string \<times> string) list \<times> blockchain" where
  "submitStar SHA256 verify now address message signature the_star self =
     (let timeStamp = parseInt (index (split CHR '':'' message) 1);
          currentTime = now
      in if within_five_minutes currentTime timeStamp then
           (let verification = verify message address signature;
                newBlock = Block (Star_data address message signature the_star);
                (added, self) = addBlock SHA256 now newBlock self
            in (case verification of
                  Throws \<Rightarrow> Rejected ''Validation Error''
                | Returns v \<Rightarrow> Resolved added,
                [(message, address, signature)], self))
         else (Rejected ''Time expired (5 min)'', [], self))"

section \<open>Calls that overlap\<close>

text \<open>
  \<open>_addBlock\<close> gives up control at its two \<open>await\<close>s: at line 82, when the new height is
  positive, and at line 91. It writes \<open>this.height\<close> before the first of them (line 76) and
  pushes the block after it (line 90), so a call that is started while another one waits runs
  between these stretches. \<open>getBlockByHeight\<close> searches the chain when it is called: the value
  awaited at line 82 is the one found before control is given up. The three stretches follow;
  \<open>addBlock\<close> above is their composition without anything in between.
\<close>

text \<open>
  Lines 70 to 82. The result holds the block and the awaited value of \<open>getBlockByHeight\<close>:
  \<open>None\<close> when the call is not made (the genesis branch), \<open>Some None\<close> for \<open>null\<close>.
\<close>

type_synonym pending = "block \<times> block option option"

definition addBlock_start :: "int \<Rightarrow> block \<Rightarrow> blockchain \<Rightarrow> pending \<times> blockchain" where
  "addBlock_start now block self =
     (let currentChainHeight = chain_height self;
          newChainHeight = currentChainHeight + 1;
          block = block\<lparr>height := newChainHeight\<rparr>;
          self = self\<lparr>chain_height := newChainHeight\<rparr>;
          block = block\<lparr>time := now\<rparr>
      in if newChainHeight > 0 then ((block, Some (getBlockByHeight self currentChainHeight)), self)
         else ((block, None), self))"

text \<open>
  Lines 83 to 91: \<open>previousBlock.hash\<close> throws when the awaited value is \<open>null\<close>, which the
  \<open>catch\<close> answers; otherwise the block is hashed and pushed and \<open>validateChain\<close> is called.
  The callbacks of \<open>validateChain\<close> call \<open>block.validate()\<close> at once, so the report that the
  call finds when it resumes is that of the chain as pushed.
\<close>

datatype staged = Thrown | Staged block "log_entry list"

definition addBlock_stage :: "(string \<Rightarrow> string) \<Rightarrow> pending \<Rightarrow> blockchain \<Rightarrow> staged \<times> blockchain" where
  "addBlock_stage SHA256 pending self =
     (case snd pending of
        Some None \<Rightarrow> (Thrown, self)
      | previous \<Rightarrow>
          (let block = (fst pending)\<lparr>previousBlockHash :=
                 (case previous of Some (Some previousBlock) \<Rightarrow> hash previousBlock | _ \<Rightarrow> None)\<rparr>;
               block = block\<lparr>hash := Some (SHA256 (JSON_stringify block))\<rparr>;
               self = self\<lparr>chain := chain self @ [block]\<rparr>
           in (Staged block (validateChain SHA256 self), self)))"

text \<open>Lines 93 to 102.\<close>

definition addBlock_finish :: "staged \<Rightarrow> blockchain \<Rightarrow> js_value \<times> blockchain" where
  "addBlock_finish staged self =
     (case staged of
        Thrown \<Rightarrow> (String_value ''Invalid block'', self)
      | Staged block errorLog \<Rightarrow>
          if length errorLog > 0
          then (Block_value block,
                self\<lparr>chain := butlast (chain self), chain_height := chain_height self - 1\<rparr>)
          else (Block_value block, self))"


text \<open>
  Two calls of \<open>submitStar\<close> made one right after the other on such a store, without awaiting
  the first. Each runs at once up to the first \<open>await\<close> of its \<open>_addBlock\<close>; a call whose
  message is too old rejects at once and calls nothing.
\<close>

definition settle :: "verification \<Rightarrow> js_value \<Rightarrow> promise" where
  "settle verification added =
     (case verification of Throws \<Rightarrow> Rejected ''Validation Error'' | Returns v \<Rightarrow> Resolved added)"


section \<open>Chains built by the class\<close>

text \<open>
  \<open>linked i p bs\<close>: the blocks \<open>bs\<close> carry the heights \<open>i, i + 1, \<dots>\<close> in order, the first
  has previous hash \<open>p\<close> and every later one the hash of the block before it.
\<close>

fun linked :: "int \<Rightarrow> string option \<Rightarrow> block list \<Rightarrow> bool" where
  "linked i p [] = True"
| "linked i p (b # bs) = (height b = i \<and> previousBlockHash b = p \<and> linked (i + 1) (hash b) bs)"

definition consistent :: "blockchain \<Rightarrow> bool" where
  "consistent self \<longleftrightarrow>
     linked 0 None (chain self) \<and> chain_height self = int (length (chain self)) - 1"


text \<open>
  \<open>reachable SHA256 verify self\<close>: the store \<open>self\<close> is what an instance holds after its
  construction and any sequence of operations, each completed before the next one starts.
  Overlapping calls are not among the rules: this is the condition of sequential use. The read
  queries return a value and leave the store as it is, so they add no rule.
\<close>

inductive reachable :: "(string \<Rightarrow> string) \<Rightarrow> verifier \<Rightarrow> blockchain \<Rightarrow> bool"
  for SHA256 :: "string \<Rightarrow> string" and verify :: verifier where
  constructed: "reachable SHA256 verify (Blockchain SHA256 now)"
| initialized: "reachable SHA256 verify self \<Longrightarrow> reachable SHA256 verify (initializeChain SHA256 now self)"
| added: "reachable SHA256 verify self \<Longrightarrow> reachable SHA256 verify (snd (addBlock SHA256 now block self))"
| submitted: "reachable SHA256 verify self
     \<Longrightarrow> reachable SHA256 verify (snd (snd (submitStar SHA256 verify now address message signature the_star self)))"

text \<open>
  What the query by address is to return, in the words of the specification: the stars of the
  blocks, in chain order, whose decoded body is a star claim of that address.
\<close>

fun stars_of_address :: "string \<Rightarrow> block list \<Rightarrow> star list" where
  "stars_of_address address [] = []"
| "stars_of_address address (b # bs) =
     (case getBData b of
        Genesis_Block \<Rightarrow> stars_of_address address bs
      | Star_data owner message signature the_star \<Rightarrow>
          if owner = address then the_star # stars_of_address address bs
          else stars_of_address address bs)"

section \<open>Example stores\<close>

text \<open>
  To run the model on concrete inputs the digest is instantiated by a function without
  collisions, the identity on strings. The address, message and signature are those of the
  test at the end of \<open>blockchain.js\<close>.
\<close>

definition plain_digest :: "string \<Rightarrow> string" where
  "plain_digest s = s"

definition example_address :: string where
  "example_address = ''miABqhtwMc8krfKT22zwKoq9WGorXzSWPW''"

definition example_message :: string where
  "example_message = ''miABqhtwMc8krfKT22zwKoq9WGorXzSWPW:1691239150:starRegistry''"

definition example_signature :: string where
  "example_signature =
     ''IE7IR7aFJ14zXN5UDh14sevRWCNJYrms3g61nLo4T6lATXeS1IlF7CtzZQ+B+E6yfCI4T8Z6RPE9mhZhgVbOL/Y=''"

definition example_star :: star where
  "example_star = [(''dec'', ''68 52 56.9''), (''ra'', ''16h 29m 1.0s''), (''story'', ''Testing the story 4'')]"

definition accepting :: verifier where
  "accepting message address signature = Returns True"

definition refusing :: verifier where
  "refusing message address signature = Returns False"

definition throwing :: verifier where
  "throwing message address signature = Throws"

text \<open>A new instance, and the same after one star was submitted 50 seconds after its message.\<close>

definition fresh_store :: blockchain where
  "fresh_store = Blockchain plain_digest 1691239100"

definition claimed_store :: blockchain where
  "claimed_store =
     snd (snd (submitStar plain_digest accepting 1691239200
       example_address example_message example_signature example_star fresh_store))"

text \<open>
  The new instance with the hash of its genesis block overwritten from outside, and the store
  with one star whose second block had its hash and its previous hash overwritten.
\<close>

definition tampered_store :: blockchain where
  "tampered_store =
     fresh_store\<lparr>chain := (chain fresh_store)[0 := (chain fresh_store ! 0)\<lparr>hash := Some ''00''\<rparr>]\<rparr>"

definition unlinked_store :: blockchain where
  "unlinked_store =
     claimed_store\<lparr>chain := (chain claimed_store)
       [1 := (chain claimed_store ! 1)\<lparr>hash := Some ''00'', previousBlockHash := Some ''00''\<rparr>]\<rparr>"

section \<open>What the job queue leaves in the arrays\<close>

lemma run_jobs_previous_hash:
  "run_jobs (map After_previous_hash hs) a =
     a\<lparr>pushed_errors := pushed_errors a @
        map (\<lambda>b. PreviousBlock_hash_invalid (height b)) (filter (\<lambda>b. previousBlockHash b \<noteq> None) hs)\<rparr>"
  by (induction hs arbitrary: a) auto

text \<open>
  The callbacks of \<open>validateChain\<close>: the jobs resumed after \<open>validate()\<close> run first, then
  the caller, then the jobs that compare the previous hash.
\<close>

lemma run_jobs_validate:
  "run_jobs (map (\<lambda>b. After_validate b (v b)) bs @ Caller_resumes # map After_previous_hash hs) a =
     a\<lparr>pushed_errors := pushed_errors a
          @ map (\<lambda>b. Block_invalid (height b)) (filter (\<lambda>b. \<not> v b) bs)
          @ map (\<lambda>b. PreviousBlock_hash_invalid (height b))
              (filter (\<lambda>b. previousBlockHash b \<noteq> None) (hs @ filter (\<lambda>b. v b \<and> height b > 0) bs)),
        seen_errors := pushed_errors a @ map (\<lambda>b. Block_invalid (height b)) (filter (\<lambda>b. \<not> v b) bs),
        seen_stars := pushed_stars a\<rparr>"
proof (induction bs arbitrary: a hs)
  case Nil
  show ?case by (simp add: run_jobs_previous_hash)
next
  case (Cons b bs)
  show ?case
  proof (cases "v b")
    case False
    then show ?thesis using Cons.IH [of hs] by simp
  next
    case True
    show ?thesis
    proof (cases "height b > 0")
      case True
      with \<open>v b\<close> Cons.IH [of "hs @ [b]"] show ?thesis by simp
    next
      case False
      with \<open>v b\<close> Cons.IH [of hs] show ?thesis by simp
    qed
  qed
qed

lemma run_jobs_getBData:
  "run_jobs (map (\<lambda>b. After_getBData (d b) address) bs @ [Caller_resumes]) a =
     a\<lparr>pushed_stars := pushed_stars a
          @ map (\<lambda>b. star_of (d b)) (filter (\<lambda>b. walletAddress_of (d b) = Some address) bs),
        seen_errors := pushed_errors a,
        seen_stars := pushed_stars a
          @ map (\<lambda>b. star_of (d b)) (filter (\<lambda>b. walletAddress_of (d b) = Some address) bs)\<rparr>"
  by (induction bs arbitrary: a) auto

lemma validateChain_eq:
  "validateChain SHA256 self =
     map (\<lambda>b. Block_invalid (height b)) (filter (\<lambda>b. \<not> validate SHA256 b) (chain self))"
  using run_jobs_validate [of "validate SHA256" "chain self" "[]" no_arrays]
  by (simp add: validateChain_def validateChain_jobs_def no_arrays_def)

lemma validateChain_settled_eq:
  "validateChain_settled SHA256 self =
     map (\<lambda>b. Block_invalid (height b)) (filter (\<lambda>b. \<not> validate SHA256 b) (chain self))
     @ map (\<lambda>b. PreviousBlock_hash_invalid (height b))
         (filter (\<lambda>b. validate SHA256 b \<and> height b > 0 \<and> previousBlockHash b \<noteq> None) (chain self))"
  using run_jobs_validate [of "validate SHA256" "chain self" "[]" no_arrays]
  by (simp add: validateChain_settled_def validateChain_jobs_def no_arrays_def conj_commute conj_left_commute)

lemma getStarsByWalletAddress_eq:
  "getStarsByWalletAddress self address =
     map (\<lambda>b. star_of (getBData b)) (filter (\<lambda>b. walletAddress_of (getBData b) = Some address) (chain self))"
  using run_jobs_getBData [of getBData address "chain self" no_arrays]
  by (simp add: getStarsByWalletAddress_def getStars_jobs_def no_arrays_def)

lemma filter_is_Block_invalid:
  "filter is_Block_invalid (map (\<lambda>b. Block_invalid (f b)) xs @ map (\<lambda>b. PreviousBlock_hash_invalid (g b)) ys)
     = map (\<lambda>b. Block_invalid (f b)) xs"
  by (simp add: filter_map comp_def)

lemma filter_not_update:
  "\<forall>x \<in> set xs. P x \<Longrightarrow> i < length xs \<Longrightarrow> \<not> P y \<Longrightarrow> filter (\<lambda>x. \<not> P x) (xs[i := y]) = [y]"
proof (induction xs arbitrary: i)
  case Nil
  then show ?case by simp
next
  case (Cons x xs)
  show ?case
  proof (cases i)
    case 0
    with Cons.prems show ?thesis by simp
  next
    case (Suc k)
    with Cons show ?thesis by simp
  qed
qed

section \<open>Appending to a chain\<close>

lemma push_and_validate_eq:
  "push_and_validate SHA256 block self =
     (Block_value (block\<lparr>hash := Some (SHA256 (JSON_stringify block))\<rparr>),
      if (\<forall>x \<in> set (chain self). validate SHA256 x)
          \<and> validate SHA256 (block\<lparr>hash := Some (SHA256 (JSON_stringify block))\<rparr>)
      then self\<lparr>chain := chain self @ [block\<lparr>hash := Some (SHA256 (JSON_stringify block))\<rparr>]\<rparr>
      else self\<lparr>chain_height := chain_height self - 1\<rparr>)"
  by (auto simp add: push_and_validate_def Let_def validateChain_eq filter_empty_conv)

text \<open>A block that stays in the chain passed the digest check, and it is the value returned.\<close>

lemma addBlock_committed:
  assumes "addBlock SHA256 now block self = (v, self')" and "chain self' = chain self @ [b]"
  shows "v = Block_value b \<and> body b = body block \<and> validate SHA256 b"
  using assms
  by (auto simp add: addBlock_def Let_def push_and_validate_eq split: if_splits option.splits)


lemma linked_filter_last:
  "linked i p bs \<Longrightarrow> bs \<noteq> [] \<Longrightarrow> filter (\<lambda>b. height b = i + int (length bs) - 1) bs = [last bs]"
proof (induction bs arbitrary: i p)
  case Nil
  then show ?case by simp
next
  case (Cons b bs)
  show ?case
  proof (cases "bs = []")
    case True
    with Cons.prems show ?thesis by simp
  next
    case False
    from Cons.prems have l: "linked (i + 1) (hash b) bs" and h: "height b = i" by simp_all
    from Cons.IH [OF l False] have "filter (\<lambda>x. height x = i + 1 + int (length bs) - 1) bs = [last bs]" .
    with False h show ?thesis by (simp add: algebra_simps)
  qed
qed


lemma getBlockByHeight_top:
  assumes "consistent self" and "chain self \<noteq> []"
  shows "getBlockByHeight (self\<lparr>chain_height := h\<rparr>) (chain_height self) = Some (last (chain self))"
proof -
  from assms have "filter (\<lambda>b. height b = 0 + int (length (chain self)) - 1) (chain self) = [last (chain self)]"
    using linked_filter_last [of 0 None "chain self"] by (simp add: consistent_def)
  with assms(1) show ?thesis
    by (simp add: getBlockByHeight_def consistent_def)
qed


lemma unset_hash: "hash b = None \<Longrightarrow> b\<lparr>hash := None\<rparr> = b"
  by (cases b) simp

text \<open>A block whose hash is unset when it is handed over is always left in a chain of intact blocks.\<close>

lemma addBlock_unset_hash:
  assumes "consistent self" and "\<forall>x \<in> set (chain self). validate SHA256 x" and "hash block = None"
  shows "\<exists>b. addBlock SHA256 now block self
              = (Block_value b, \<lparr>chain = chain self @ [b], chain_height = chain_height self + 1\<rparr>)
            \<and> body b = body block \<and> validate SHA256 b \<and> height b = chain_height self + 1
            \<and> previousBlockHash b = (if chain self = [] then None else hash (last (chain self)))"
proof (cases "chain self = []")
  case True
  with assms(1) have h: "chain_height self = - 1" by (simp add: consistent_def)
  with True assms(2,3) show ?thesis
    by (simp add: addBlock_def Let_def push_and_validate_eq validate_def unset_hash)
next
  case False
  with assms(1) have h: "chain_height self + 1 > 0" by (simp add: consistent_def)
  from assms(1) False have g: "getBlockByHeight (self\<lparr>chain_height := chain_height self + 1\<rparr>) (chain_height self) = Some (last (chain self))"
    by (rule getBlockByHeight_top)
  from assms(2,3) h g False show ?thesis
    by (simp add: addBlock_def Let_def push_and_validate_eq validate_def unset_hash)
qed






text \<open>
  A submission whose message carries a time stamp at most 300 seconds old: whatever the
  verifier does, the block is appended.
\<close>

lemma submitStar_in_time:
  assumes "consistent self" and "\<forall>x \<in> set (chain self). validate SHA256 x"
    and "within_five_minutes now (parseInt (index (split CHR '':'' message) 1))"
  shows "\<exists>b. submitStar SHA256 verify now address message signature the_star self
              = ((case verify message address signature of
                    Throws \<Rightarrow> Rejected ''Validation Error''
                  | Returns v \<Rightarrow> Resolved (Block_value b)),
                 [(message, address, signature)],
                 \<lparr>chain = chain self @ [b], chain_height = chain_height self + 1\<rparr>)
            \<and> body b = Star_data address message signature the_star \<and> validate SHA256 b
            \<and> height b = chain_height self + 1
            \<and> previousBlockHash b = (if chain self = [] then None else hash (last (chain self)))"
proof -
  have "hash (Block (Star_data address message signature the_star)) = None"
    by (simp add: Block_def)
  from addBlock_unset_hash [OF assms(1,2) this, of now]
  obtain b where "addBlock SHA256 now (Block (Star_data address message signature the_star)) self
        = (Block_value b, \<lparr>chain = chain self @ [b], chain_height = chain_height self + 1\<rparr>)"
    and "body b = Star_data address message signature the_star" and "validate SHA256 b"
    and "height b = chain_height self + 1"
    and "previousBlockHash b = (if chain self = [] then None else hash (last (chain self)))"
    by (auto simp add: Block_def)
  with assms(3) show ?thesis
    by (simp add: submitStar_def Let_def)
qed

section \<open>The example stores\<close>

lemma example_timestamp:
  "parseInt (index (split CHR '':'' example_message) 1) = Some 1691239150"
  by code_simp

lemma two_part_timestamp:
  "parseInt (index (split CHR '':'' ''miABqhtwMc8krfKT22zwKoq9WGorXzSWPW:1691239150'') 1) = Some 1691239150"
  by code_simp

lemma no_colon_timestamp:
  "parseInt (index (split CHR '':'' ''abc'') 1) = None"
  by code_simp

lemma valid_hash_not_00: "validate plain_digest b \<Longrightarrow> hash b \<noteq> Some ''00''"
  by (simp add: validate_def plain_digest_def JSON_stringify_def json_object_def)

lemma fresh_store_form:
  "\<exists>g. fresh_store = \<lparr>chain = [g], chain_height = 0\<rparr> \<and> validate plain_digest g
       \<and> body g = Genesis_Block \<and> height g = 0 \<and> previousBlockHash g = None"
proof -
  have "consistent \<lparr>chain = [], chain_height = - 1\<rparr>" by (simp add: consistent_def)
  moreover have "\<forall>x \<in> set (chain \<lparr>chain = [], chain_height = - 1\<rparr>). validate plain_digest x" by simp
  moreover have "hash (Block Genesis_Block) = None" by (simp add: Block_def)
  ultimately obtain g where
    "addBlock plain_digest 1691239100 (Block Genesis_Block) \<lparr>chain = [], chain_height = - 1\<rparr>
       = (Block_value g, \<lparr>chain = [] @ [g], chain_height = - 1 + 1\<rparr>)"
    and "body g = Genesis_Block" and "validate plain_digest g" and "height g = 0"
    and "previousBlockHash g = None"
    using addBlock_unset_hash [of "\<lparr>chain = [], chain_height = - 1\<rparr>" plain_digest "Block Genesis_Block" 1691239100]
    by (auto simp add: Block_def)
  then show ?thesis
    by (auto simp add: fresh_store_def Blockchain_def initializeChain_def)
qed

lemma fresh_store_sound:
  "consistent fresh_store \<and> (\<forall>x \<in> set (chain fresh_store). validate plain_digest x)"
proof -
  from fresh_store_form obtain g where g: "fresh_store = \<lparr>chain = [g], chain_height = 0\<rparr>"
    and "validate plain_digest g" and "height g = 0" and "previousBlockHash g = None"
    by blast
  then show ?thesis by (simp add: g consistent_def)
qed

lemma fresh_store_submit:
  "\<exists>g b. fresh_store = \<lparr>chain = [g], chain_height = 0\<rparr>
     \<and> submitStar plain_digest verify 1691239200 example_address example_message example_signature
          example_star fresh_store
        = ((case verify example_message example_address example_signature of
              Throws \<Rightarrow> Rejected ''Validation Error''
            | Returns v \<Rightarrow> Resolved (Block_value b)),
           [(example_message, example_address, example_signature)],
           \<lparr>chain = [g, b], chain_height = 1\<rparr>)
     \<and> validate plain_digest g \<and> body g = Genesis_Block \<and> height g = 0 \<and> previousBlockHash g = None
     \<and> validate plain_digest b
     \<and> body b = Star_data example_address example_message example_signature example_star
     \<and> height b = 1 \<and> previousBlockHash b = hash g"
proof -
  from fresh_store_form obtain g where g: "fresh_store = \<lparr>chain = [g], chain_height = 0\<rparr>"
    "validate plain_digest g" "body g = Genesis_Block" "height g = 0" "previousBlockHash g = None"
    by blast
  have t: "within_five_minutes 1691239200 (parseInt (index (split CHR '':'' example_message) 1))"
    unfolding example_timestamp within_five_minutes_def by simp
  from submitStar_in_time [of fresh_store plain_digest 1691239200 example_message verify
      example_address example_signature example_star] fresh_store_sound t
  obtain b where "submitStar plain_digest verify 1691239200 example_address example_message
        example_signature example_star fresh_store
      = ((case verify example_message example_address example_signature of
            Throws \<Rightarrow> Rejected ''Validation Error''
          | Returns v \<Rightarrow> Resolved (Block_value b)),
         [(example_message, example_address, example_signature)],
         \<lparr>chain = chain fresh_store @ [b], chain_height = chain_height fresh_store + 1\<rparr>)"
    and "body b = Star_data example_address example_message example_signature example_star"
    and "validate plain_digest b" and "height b = chain_height fresh_store + 1"
    and "previousBlockHash b = (if chain fresh_store = [] then None else hash (last (chain fresh_store)))"
    by blast
  with g show ?thesis by (simp add: g(1))
qed

lemma claimed_store_form:
  "\<exists>g b. fresh_store = \<lparr>chain = [g], chain_height = 0\<rparr>
     \<and> claimed_store = \<lparr>chain = [g, b], chain_height = 1\<rparr>
     \<and> validate plain_digest g \<and> body g = Genesis_Block \<and> height g = 0 \<and> previousBlockHash g = None
     \<and> validate plain_digest b
     \<and> body b = Star_data example_address example_message example_signature example_star
     \<and> height b = 1 \<and> previousBlockHash b = hash g"
  using fresh_store_submit [of accepting] by (auto simp add: claimed_store_def accepting_def)

section \<open>The stretches of an append\<close>


lemma addBlock_stretches:
  "addBlock SHA256 now block self =
     (let (pending, self) = addBlock_start now block self;
          (staged, self) = addBlock_stage SHA256 pending self
      in addBlock_finish staged self)"
  by (simp add: addBlock_def addBlock_start_def addBlock_stage_def addBlock_finish_def
      push_and_validate_def Let_def split: option.splits)

lemma submitStar_settle:
  "submitStar SHA256 verify now address message signature the_star self =
     (if within_five_minutes now (parseInt (index (split CHR '':'' message) 1))
      then (settle (verify message address signature)
              (fst (addBlock SHA256 now (Block (Star_data address message signature the_star)) self)),
            [(message, address, signature)],
            snd (addBlock SHA256 now (Block (Star_data address message signature the_star)) self))
      else (Rejected ''Time expired (5 min)'', [], self))"
  by (simp add: submitStar_def settle_def Let_def split_beta)


section \<open>The serialised block shows its hash property\<close>

lemma digit_char_inject: "a < 16 \<Longrightarrow> b < 16 \<Longrightarrow> digit_char a = digit_char b \<Longrightarrow> a = b"
proof -
  assume a: "a < 16" and b: "b < 16" and e: "digit_char a = digit_char b"
  have d: "distinct ''0123456789abcdef''" by simp
  from a b have "a < length ''0123456789abcdef''" and "b < length ''0123456789abcdef''" by simp_all
  with d e a b show "a = b"
    by (simp add: digit_char_def nth_eq_iff_index_eq)
qed

lemma json_escape_first: "\<exists>x xs. json_escape c = x # xs \<and> x \<noteq> CHR 0x22"
  by (simp add: json_escape_def Let_def)

lemma low_char_inject:
  assumes "of_char c < (32 :: nat)" and "of_char d < (32 :: nat)"
    and "digit_char (of_char c div 16) = digit_char (of_char d div 16)"
    and "digit_char (of_char c mod 16) = digit_char (of_char d mod 16)"
  shows "c = d"
proof -
  from assms(1,2) have a: "(of_char c :: nat) div 16 < 16" and b: "(of_char d :: nat) div 16 < 16"
    by simp_all
  from digit_char_inject [OF a b assms(3)] have q: "(of_char c :: nat) div 16 = of_char d div 16" .
  have a': "(of_char c :: nat) mod 16 < 16" and b': "(of_char d :: nat) mod 16 < 16" by simp_all
  from digit_char_inject [OF a' b' assms(4)] have r: "(of_char c :: nat) mod 16 = of_char d mod 16" .
  from q r have "(of_char c :: nat) = of_char d"
    by (metis div_mult_mod_eq)
  then show ?thesis by simp
qed

text \<open>No escape is the beginning of another: an escaped text can be read back.\<close>

lemma json_escape_prefix:
  assumes "json_escape c @ u = json_escape d @ v"
  shows "c = d \<and> u = v"
proof (cases "json_escape c = [c]")
  case True
  then have c: "c \<noteq> CHR 0x5C" by (auto simp add: json_escape_def Let_def split: if_splits)
  show ?thesis
  proof (cases "json_escape d = [d]")
    case True
    with \<open>json_escape c = [c]\<close> assms show ?thesis by simp
  next
    case False
    then have "\<exists>xs. json_escape d = CHR 0x5C # xs"
      by (auto simp add: json_escape_def Let_def split: if_splits)
    with \<open>json_escape c = [c]\<close> assms c show ?thesis by auto
  qed
next
  case False
  then have e: "\<exists>xs. json_escape c = CHR 0x5C # xs"
    by (auto simp add: json_escape_def Let_def split: if_splits)
  show ?thesis
  proof (cases "json_escape d = [d]")
    case True
    then have "d \<noteq> CHR 0x5C" by (auto simp add: json_escape_def Let_def split: if_splits)
    with True e assms show ?thesis by auto
  next
    case d: False
    from False d assms show ?thesis
      by (auto simp add: json_escape_def Let_def split: if_splits dest: low_char_inject)
  qed
qed

lemma escaped_text_inject:
  "concat (map json_escape s) @ CHR 0x22 # u = concat (map json_escape t) @ CHR 0x22 # v \<Longrightarrow> s = t"
proof (induction s arbitrary: t)
  case Nil
  show ?case
  proof (cases t)
    case Nil
    then show ?thesis by simp
  next
    case (Cons d ds)
    from json_escape_first [of d] obtain x xs where "json_escape d = x # xs" and "x \<noteq> CHR 0x22" by blast
    with Nil.prems Cons show ?thesis by simp
  qed
next
  case (Cons c cs)
  show ?case
  proof (cases t)
    case Nil
    from json_escape_first [of c] obtain x xs where "json_escape c = x # xs" and "x \<noteq> CHR 0x22" by blast
    with Cons.prems Nil show ?thesis by simp
  next
    case (Cons d ds)
    with Cons.prems have "json_escape c @ (concat (map json_escape cs) @ CHR 0x22 # u)
        = json_escape d @ (concat (map json_escape ds) @ CHR 0x22 # v)"
      by simp
    from json_escape_prefix [OF this]
    have "c = d" and "concat (map json_escape cs) @ CHR 0x22 # u = concat (map json_escape ds) @ CHR 0x22 # v"
      by simp_all
    with Cons.IH [of ds] Cons show ?thesis by simp
  qed
qed

lemma json_nullable_inject:
  "json_nullable h @ CHR '','' # u = json_nullable k @ CHR '','' # v \<Longrightarrow> h = k"
proof (cases h; cases k)
  fix s t
  assume "json_nullable h @ CHR '','' # u = json_nullable k @ CHR '','' # v" and "h = Some s" and "k = Some t"
  then have "concat (map json_escape s) @ CHR 0x22 # (CHR '','' # u)
      = concat (map json_escape t) @ CHR 0x22 # (CHR '','' # v)"
    by (simp add: json_nullable_def json_quote_def)
  from escaped_text_inject [OF this] \<open>h = Some s\<close> \<open>k = Some t\<close> show "h = k" by simp
qed (simp_all add: json_nullable_def json_quote_def)

lemma JSON_stringify_hash:
  "JSON_stringify b = JSON_stringify c \<Longrightarrow> hash b = hash c"
proof -
  assume "JSON_stringify b = JSON_stringify c"
  then have "json_nullable (hash b) @ CHR '','' #
        (json_members [(''height'', show_int (height b)), (''body'', json_quote (encode (body b))),
           (''time'', json_quote (show_int (time b))),
           (''previousBlockHash'', json_nullable (previousBlockHash b))] @ ''}'')
      = json_nullable (hash c) @ CHR '','' #
        (json_members [(''height'', show_int (height c)), (''body'', json_quote (encode (body c))),
           (''time'', json_quote (show_int (time c))),
           (''previousBlockHash'', json_nullable (previousBlockHash c))] @ ''}'')"
    by (simp add: JSON_stringify_def json_object_def)
  then show ?thesis by (rule json_nullable_inject)
qed

lemma JSON_stringify_begins:
  "take 13 (JSON_stringify (b\<lparr>hash := None\<rparr>))
     = [CHR ''{'', CHR 0x22, CHR ''h'', CHR ''a'', CHR ''s'', CHR ''h'', CHR 0x22, CHR '':'',
        CHR ''n'', CHR ''u'', CHR ''l'', CHR ''l'', CHR '','']"
  by (simp add: JSON_stringify_def json_object_def json_quote_def json_escape_def json_nullable_def)

lemma restore_hash: "hash c = h \<Longrightarrow> c\<lparr>hash := x\<rparr>\<lparr>hash := h\<rparr> = c"
  by (cases c) simp

text \<open>Line 89: the value returned by \<open>_addBlock\<close>, when it is a block, carries the digest of the
  serialised block as it was before the hash was assigned.\<close>

lemma addBlock_returned_hash:
  "fst (addBlock SHA256 now block self) = Block_value b
     \<Longrightarrow> hash b = Some (SHA256 (JSON_stringify (b\<lparr>hash := hash block\<rparr>)))
         \<and> height b = chain_height self + 1 \<and> time b = now \<and> body b = body block"
  by (auto simp add: addBlock_def Let_def push_and_validate_eq restore_hash
      split: if_splits option.splits)

section \<open>The claims\<close>

subsection \<open>Submitting a star\<close>

text \<open>
  Claim C1. A call of \<open>submitStar\<close> for which the verification primitive returns false or
  raises is to fail with the invalid-signature error, append no block and leave the chain height
  as it is. The code calls \<open>bitcoinMessage.verify\<close> and drops its value; when the primitive
  throws it rejects the promise and then goes on. On a new instance, with a message 50 seconds
  old: if the primitive returns false the promise resolves and the height goes from 0 to 1; if
  it throws the promise is rejected with \<open>"Validation Error"\<close> and the height goes from 0
  to 1 all the same.
\<close>

theorem submitStar_appends_unverified:
  "getChainHeight fresh_store = 0
   \<and> is_Resolved (fst (submitStar plain_digest refusing 1691239200
        example_address example_message example_signature example_star fresh_store))
   \<and> getChainHeight (snd (snd (submitStar plain_digest refusing 1691239200
        example_address example_message example_signature example_star fresh_store))) = 1
   \<and> length (chain (snd (snd (submitStar plain_digest refusing 1691239200
        example_address example_message example_signature example_star fresh_store)))) = 2
   \<and> fst (submitStar plain_digest throwing 1691239200
        example_address example_message example_signature example_star fresh_store)
       = Rejected ''Validation Error''
   \<and> getChainHeight (snd (snd (submitStar plain_digest throwing 1691239200
        example_address example_message example_signature example_star fresh_store))) = 1
   \<and> length (chain (snd (snd (submitStar plain_digest throwing 1691239200
        example_address example_message example_signature example_star fresh_store)))) = 2"
proof -
  from fresh_store_submit [of refusing] obtain g b where
    f: "fresh_store = \<lparr>chain = [g], chain_height = 0\<rparr>"
    and r: "submitStar plain_digest refusing 1691239200 example_address example_message
        example_signature example_star fresh_store
      = (Resolved (Block_value b), [(example_message, example_address, example_signature)],
         \<lparr>chain = [g, b], chain_height = 1\<rparr>)"
    by (auto simp add: refusing_def)
  from fresh_store_submit [of throwing] obtain g' b' where
    t: "submitStar plain_digest throwing 1691239200 example_address example_message
        example_signature example_star fresh_store
      = (Rejected ''Validation Error'', [(example_message, example_address, example_signature)],
         \<lparr>chain = [g', b'], chain_height = 1\<rparr>)"
    by (auto simp add: throwing_def)
  show ?thesis
    unfolding r t by (simp add: f getChainHeight_def)
qed

text \<open>
  Claim C6. When the time stamp embedded in the message is more than 300 seconds behind the
  clock, \<open>submitStar\<close> fails with the expiry error whatever the verifier would say, the
  verifier is not called, and the store is the one before the call.
\<close>

theorem submitStar_expired:
  "parseInt (index (split CHR '':'' message) 1) = Some timeStamp \<Longrightarrow> now - timeStamp > 300
     \<Longrightarrow> submitStar SHA256 verify now address message signature the_star self
          = (Rejected ''Time expired (5 min)'', [], self)"
  by (simp add: submitStar_def within_five_minutes_def Let_def)

theorem submitStar_expired_witness:
  "parseInt (index (split CHR '':'' example_message) 1) = Some 1691239150
   \<and> (1691239451 :: int) - 1691239150 > 300
   \<and> submitStar plain_digest accepting 1691239451 example_address example_message example_signature
        example_star fresh_store
      = (Rejected ''Time expired (5 min)'', [], fresh_store)"
proof -
  have d: "(1691239451 :: int) - 1691239150 > 300" by simp
  from submitStar_expired [OF example_timestamp d] example_timestamp d
  show ?thesis by blast
qed

text \<open>
  Claim C7, as it stands: a message that is not of the form \<open>address:timestamp:tag\<close>, or
  whose time stamp is not a number, is to fail with a malformed-message error and no other.
  The code never inspects the form of the message: it reads the second piece and hands it to
  \<open>parseInt\<close>. A message without a colon is rejected with the very error of an expired
  challenge, and a message of two pieces with a recent number is accepted and its block
  appended.
\<close>

theorem submitStar_malformed_counterexample:
  "submitStar plain_digest accepting 1691239200 example_address ''abc'' example_signature
       example_star fresh_store
     = (Rejected ''Time expired (5 min)'', [], fresh_store)
   \<and> is_Resolved (fst (submitStar plain_digest accepting 1691239200 example_address
        ''miABqhtwMc8krfKT22zwKoq9WGorXzSWPW:1691239150'' example_signature example_star fresh_store))
   \<and> length (chain (snd (snd (submitStar plain_digest accepting 1691239200 example_address
        ''miABqhtwMc8krfKT22zwKoq9WGorXzSWPW:1691239150'' example_signature example_star fresh_store))))
       = Suc (length (chain fresh_store))"
proof -
  have a: "submitStar plain_digest accepting 1691239200 example_address ''abc'' example_signature
       example_star fresh_store
     = (Rejected ''Time expired (5 min)'', [], fresh_store)"
    unfolding submitStar_def no_colon_timestamp by (simp add: within_five_minutes_def)
  have "within_five_minutes 1691239200
      (parseInt (index (split CHR '':'' ''miABqhtwMc8krfKT22zwKoq9WGorXzSWPW:1691239150'') 1))"
    unfolding two_part_timestamp within_five_minutes_def by simp
  from submitStar_in_time [of fresh_store plain_digest 1691239200
      "''miABqhtwMc8krfKT22zwKoq9WGorXzSWPW:1691239150''" accepting example_address
      example_signature example_star] fresh_store_sound this
  obtain b where b: "submitStar plain_digest accepting 1691239200 example_address
        ''miABqhtwMc8krfKT22zwKoq9WGorXzSWPW:1691239150'' example_signature example_star fresh_store
      = (Resolved (Block_value b),
         [(''miABqhtwMc8krfKT22zwKoq9WGorXzSWPW:1691239150'', example_address, example_signature)],
         \<lparr>chain = chain fresh_store @ [b], chain_height = chain_height fresh_store + 1\<rparr>)"
    by (auto simp add: accepting_def)
  show ?thesis
    unfolding b a by simp
qed

text \<open>
  Claim C7, amended: when the message has no second colon-delimited piece, or that piece does
  not begin (after white space and a sign) with a digit, \<open>submitStar\<close> fails with the error
  of an expired challenge, the verifier is not called and the store is the one before the
  call. Nothing else about the form of the message is checked.
\<close>

theorem submitStar_no_timestamp:
  "parseInt (index (split CHR '':'' message) 1) = None
     \<Longrightarrow> submitStar SHA256 verify now address message signature the_star self
          = (Rejected ''Time expired (5 min)'', [], self)"
  by (simp add: submitStar_def within_five_minutes_def Let_def)

theorem submitStar_no_timestamp_witness:
  "parseInt (index (split CHR '':'' ''abc'') 1) = None
   \<and> submitStar plain_digest accepting 1691239200 example_address ''abc'' example_signature
        example_star fresh_store
      = (Rejected ''Time expired (5 min)'', [], fresh_store)"
  using submitStar_no_timestamp [OF no_colon_timestamp] no_colon_timestamp by blast

subsection \<open>Appending a block\<close>

text \<open>
  Claim C2. When the validation report of the staged chain is not empty, \<open>_addBlock\<close> is to
  discard the block, restore the store and give the caller an integrity error, never the block
  as a success value. The code restores the store and then returns the block like after a
  commit. On the instance whose genesis hash was overwritten the report is not empty, the store
  after the call is the store before it, and the value the promise resolves with is a block.
\<close>

theorem addBlock_rollback_returns_block:
  "validateChain plain_digest tampered_store \<noteq> []
   \<and> is_Block_value (fst (addBlock plain_digest 1691239200
        (Block (Star_data example_address example_message example_signature example_star))
        tampered_store))
   \<and> snd (addBlock plain_digest 1691239200
        (Block (Star_data example_address example_message example_signature example_star))
        tampered_store) = tampered_store"
proof -
  from fresh_store_form obtain g where g: "fresh_store = \<lparr>chain = [g], chain_height = 0\<rparr>"
    and v: "validate plain_digest g" and h: "height g = 0"
    by blast
  have t: "tampered_store = \<lparr>chain = [g\<lparr>hash := Some ''00''\<rparr>], chain_height = 0\<rparr>"
    by (simp add: tampered_store_def g)
  have n: "\<not> validate plain_digest (g\<lparr>hash := Some ''00''\<rparr>)"
    using valid_hash_not_00 [of "g\<lparr>hash := Some ''00''\<rparr>"] by auto
  show ?thesis
    unfolding t using n h
    by (simp add: validateChain_eq addBlock_def Let_def getBlockByHeight_def push_and_validate_eq)
qed







text \<open>
  Claim C5, as it stands: the stored hash of a committed block is the digest of the block's
  content with the hash field excluded, by the schema and not because the field happens to be
  unset when the digest is taken. Line 89 digests \<open>JSON.stringify(block)\<close>, the whole object.
  The hash stored in the genesis block of a new instance is the digest of a text that begins
  with the hash property, \<open>{"hash":null,\<close> (the example digest is the identity, so the stored
  hash is the digested text); and the same block handed to \<open>_addBlock\<close> with its hash
  property set is given another hash than with the property unset.
\<close>

theorem stored_hash_counterexample:
  "(case hash (chain fresh_store ! 0) of
      None \<Rightarrow> False
    | Some digested \<Rightarrow>
        take 13 digested
          = [CHR ''{'', CHR 0x22, CHR ''h'', CHR ''a'', CHR ''s'', CHR ''h'', CHR 0x22, CHR '':'',
             CHR ''n'', CHR ''u'', CHR ''l'', CHR ''l'', CHR '',''])
   \<and> (case fst (addBlock plain_digest 1691239100 ((Block Genesis_Block)\<lparr>hash := Some ''00''\<rparr>)
                 \<lparr>chain = [], chain_height = - 1\<rparr>) of
        Block_value b \<Rightarrow> hash b
      | String_value s \<Rightarrow> None)
     \<noteq> (case fst (addBlock plain_digest 1691239100 (Block Genesis_Block)
                 \<lparr>chain = [], chain_height = - 1\<rparr>) of
          Block_value b \<Rightarrow> hash b
        | String_value s \<Rightarrow> None)"
proof -
  from fresh_store_form obtain g where f: "fresh_store = \<lparr>chain = [g], chain_height = 0\<rparr>"
    and v: "validate plain_digest g"
    by blast
  from v have "hash g = Some (JSON_stringify (g\<lparr>hash := None\<rparr>))"
    by (simp add: validate_def plain_digest_def)
  then have 1: "(case hash (chain fresh_store ! 0) of
      None \<Rightarrow> False
    | Some digested \<Rightarrow>
        take 13 digested
          = [CHR ''{'', CHR 0x22, CHR ''h'', CHR ''a'', CHR ''s'', CHR ''h'', CHR 0x22, CHR '':'',
             CHR ''n'', CHR ''u'', CHR ''l'', CHR ''l'', CHR '',''])"
    by (simp add: f JSON_stringify_begins)
  have "JSON_stringify (Block Genesis_Block
          \<lparr>hash := Some ''00'', height := 0, time := 1691239100, previousBlockHash := None\<rparr>)
      \<noteq> JSON_stringify (Block Genesis_Block
          \<lparr>height := 0, time := 1691239100, previousBlockHash := None\<rparr>)"
    using JSON_stringify_hash [of
        "Block Genesis_Block\<lparr>hash := Some ''00'', height := 0, time := 1691239100, previousBlockHash := None\<rparr>"
        "Block Genesis_Block\<lparr>height := 0, time := 1691239100, previousBlockHash := None\<rparr>"]
    by (auto simp add: Block_def)
  then have 2: "(case fst (addBlock plain_digest 1691239100 ((Block Genesis_Block)\<lparr>hash := Some ''00''\<rparr>)
                 \<lparr>chain = [], chain_height = - 1\<rparr>) of
        Block_value b \<Rightarrow> hash b
      | String_value s \<Rightarrow> None)
     \<noteq> (case fst (addBlock plain_digest 1691239100 (Block Genesis_Block)
                 \<lparr>chain = [], chain_height = - 1\<rparr>) of
          Block_value b \<Rightarrow> hash b
        | String_value s \<Rightarrow> None)"
    by (simp add: addBlock_def Let_def push_and_validate_eq plain_digest_def)
  from 1 2 show ?thesis by blast
qed

text \<open>
  Claim C5, amended: the hash stored in every block that \<open>_addBlock\<close> returns, and so in
  every block it leaves in the chain, is the digest of the serialisation of the whole block as
  it stood when the digest was taken: height and time as just assigned, the body, the previous
  hash, and the hash property with the value it had on entry (\<open>null\<close> for a block fresh
  from the constructor, and then the digest is that of the block with its hash reset). The
  serialised text determines the value of the hash property: the property is part of the
  digested content, not excluded from it.
\<close>

theorem stored_hash_digests_whole_block:
  "(fst (addBlock SHA256 now block self) = Block_value b
      \<longrightarrow> hash b = Some (SHA256 (JSON_stringify (b\<lparr>hash := hash block\<rparr>)))
          \<and> height b = chain_height self + 1 \<and> time b = now \<and> body b = body block)
   \<and> (addBlock SHA256 now block self = (v, self') \<and> chain self' = chain self @ [c]
      \<longrightarrow> hash c = Some (SHA256 (JSON_stringify (c\<lparr>hash := hash block\<rparr>))))
   \<and> (addBlock SHA256 now block self = (v, self') \<and> chain self' = chain self @ [c] \<and> hash block = None
      \<longrightarrow> hash c = Some (SHA256 (JSON_stringify (c\<lparr>hash := None\<rparr>))))
   \<and> (JSON_stringify d = JSON_stringify e \<longrightarrow> hash d = hash e)"
proof -
  have 1: "hash b = Some (SHA256 (JSON_stringify (b\<lparr>hash := hash block\<rparr>)))
      \<and> height b = chain_height self + 1 \<and> time b = now \<and> body b = body block"
    if "fst (addBlock SHA256 now block self) = Block_value b"
    using that by (rule addBlock_returned_hash)
  have 2: "hash c = Some (SHA256 (JSON_stringify (c\<lparr>hash := hash block\<rparr>)))"
    if "addBlock SHA256 now block self = (v, self') \<and> chain self' = chain self @ [c]"
  proof -
    from that addBlock_committed [of SHA256 now block self v self' c]
    have "fst (addBlock SHA256 now block self) = Block_value c" by simp
    from addBlock_returned_hash [OF this] show ?thesis by simp
  qed
  have 3: "hash c = Some (SHA256 (JSON_stringify (c\<lparr>hash := None\<rparr>)))"
    if "addBlock SHA256 now block self = (v, self') \<and> chain self' = chain self @ [c] \<and> hash block = None"
    using 2 that by simp
  have 4: "hash d = hash e" if "JSON_stringify d = JSON_stringify e"
    using that by (rule JSON_stringify_hash)
  from 1 2 3 4 show ?thesis by blast
qed

theorem stored_hash_digests_whole_block_witness:
  "fst (addBlock plain_digest 1691239200
        (Block (Star_data example_address example_message example_signature example_star)) fresh_store)
     = Block_value (chain claimed_store ! 1)
   \<and> snd (addBlock plain_digest 1691239200
        (Block (Star_data example_address example_message example_signature example_star)) fresh_store)
     = claimed_store
   \<and> chain claimed_store = chain fresh_store @ [chain claimed_store ! 1]
   \<and> hash (Block (Star_data example_address example_message example_signature example_star)) = None
   \<and> JSON_stringify (chain claimed_store ! 1) = JSON_stringify (chain claimed_store ! 1)
   \<and> hash (chain claimed_store ! 1)
       = Some (plain_digest (JSON_stringify ((chain claimed_store ! 1)\<lparr>hash := None\<rparr>)))
   \<and> height (chain claimed_store ! 1) = chain_height fresh_store + 1
   \<and> time (chain claimed_store ! 1) = 1691239200
   \<and> body (chain claimed_store ! 1)
       = Star_data example_address example_message example_signature example_star"
proof -
  have s: "claimed_store = snd (addBlock plain_digest 1691239200
      (Block (Star_data example_address example_message example_signature example_star)) fresh_store)"
    unfolding claimed_store_def submitStar_def example_timestamp
    by (simp add: within_five_minutes_def split_beta Let_def)
  from claimed_store_form obtain g b where f: "fresh_store = \<lparr>chain = [g], chain_height = 0\<rparr>"
    and c: "claimed_store = \<lparr>chain = [g, b], chain_height = 1\<rparr>"
    by blast
  have a: "chain claimed_store = chain fresh_store @ [chain claimed_store ! 1]"
    by (simp add: f c)
  have e: "addBlock plain_digest 1691239200
      (Block (Star_data example_address example_message example_signature example_star)) fresh_store
      = (fst (addBlock plain_digest 1691239200
          (Block (Star_data example_address example_message example_signature example_star)) fresh_store),
         claimed_store)"
    by (simp add: s)
  from addBlock_committed [OF e a]
  have r: "fst (addBlock plain_digest 1691239200
        (Block (Star_data example_address example_message example_signature example_star)) fresh_store)
     = Block_value (chain claimed_store ! 1)"
    by simp
  have n: "hash (Block (Star_data example_address example_message example_signature example_star)) = None"
    by (simp add: Block_def)
  from stored_hash_digests_whole_block [of plain_digest 1691239200
      "Block (Star_data example_address example_message example_signature example_star)" fresh_store
      "chain claimed_store ! 1"
      "fst (addBlock plain_digest 1691239200
          (Block (Star_data example_address example_message example_signature example_star)) fresh_store)"
      claimed_store "chain claimed_store ! 1" "chain claimed_store ! 1" "chain claimed_store ! 1"]
    r e a n s
  show ?thesis by (simp add: Block_def)
qed

subsection \<open>Validating the chain\<close>

text \<open>
  Claim C3, as it stands: the report of \<open>validateChain\<close> holds a tampered-block error for
  every block whose digest does not match and a broken-linkage error for every block above the
  genesis whose previous hash is not the hash of the block before it, both possibly for the
  same block, and it is empty exactly for a healthy chain. In the code a block that fails the
  digest check is not checked for linkage (the linkage test sits in the branch of the intact
  blocks): in the store whose second block has both hash and previous hash overwritten, the
  previous hash of block 1 differs from the hash of block 0, and the report is the single entry
  for the invalid block, when the caller resumes and when all callbacks have finished. The
  chain built by the class itself, intact and linked, ends with a previous-hash entry for
  block 1 in its report.
\<close>

theorem validateChain_report_counterexample:
  "previousBlockHash (chain unlinked_store ! 1) \<noteq> hash (chain unlinked_store ! 0)
   \<and> validateChain plain_digest unlinked_store = [Block_invalid 1]
   \<and> validateChain_settled plain_digest unlinked_store = [Block_invalid 1]
   \<and> list_all (validate plain_digest) (chain claimed_store)
   \<and> linked 0 None (chain claimed_store)
   \<and> validateChain_settled plain_digest claimed_store = [PreviousBlock_hash_invalid 1]"
proof -
  from claimed_store_form obtain g b where
    c: "claimed_store = \<lparr>chain = [g, b], chain_height = 1\<rparr>"
    and g: "validate plain_digest g" "height g = 0" "previousBlockHash g = None"
    and b: "validate plain_digest b" "height b = 1" "previousBlockHash b = hash g"
    by blast
  have u: "unlinked_store
      = \<lparr>chain = [g, b\<lparr>hash := Some ''00'', previousBlockHash := Some ''00''\<rparr>], chain_height = 1\<rparr>"
    by (simp add: unlinked_store_def c)
  have n: "\<not> validate plain_digest (b\<lparr>hash := Some ''00'', previousBlockHash := Some ''00''\<rparr>)"
    using valid_hash_not_00 [of "b\<lparr>hash := Some ''00'', previousBlockHash := Some ''00''\<rparr>"] by auto
  have h: "hash g \<noteq> Some ''00''" and p: "hash g \<noteq> None"
    using valid_hash_not_00 [OF g(1)] g(1) by (auto simp add: validate_def)
  have 1: "previousBlockHash (chain unlinked_store ! 1) \<noteq> hash (chain unlinked_store ! 0)"
    using h by (simp add: u)
  have 2: "validateChain plain_digest unlinked_store = [Block_invalid 1]"
    using g b n by (simp add: validateChain_eq u)
  have 3: "validateChain_settled plain_digest unlinked_store = [Block_invalid 1]"
    using g b n by (simp add: validateChain_settled_eq u)
  have 4: "list_all (validate plain_digest) (chain claimed_store)"
    using g b by (simp add: c)
  have 5: "linked 0 None (chain claimed_store)"
    using g b by (simp add: c)
  have 6: "validateChain_settled plain_digest claimed_store = [PreviousBlock_hash_invalid 1]"
    using g b p by (simp add: validateChain_settled_eq c)
  from 1 2 3 4 5 6 show ?thesis by blast
qed

text \<open>
  Claim C3, amended: for every chain the report of \<open>validateChain\<close> holds, in chain order,
  one invalid-block entry for each block whose recomputed digest differs from its stored hash
  and for no other block, both when the awaiting caller resumes and when all callbacks have
  finished; so it has no such entry exactly when every digest matches. A block is tested for
  linkage only when its digest matches, so with distinct heights no height has both kinds of
  entry. Overwriting the stored hash of one block of a chain of intact blocks gives exactly one
  invalid-block entry, with that block's height.
\<close>

theorem validateChain_invalid_blocks:
  "filter is_Block_invalid (validateChain SHA256 self)
     = map (\<lambda>b. Block_invalid (height b)) (filter (\<lambda>b. \<not> validate SHA256 b) (chain self))
   \<and> filter is_Block_invalid (validateChain_settled SHA256 self)
     = map (\<lambda>b. Block_invalid (height b)) (filter (\<lambda>b. \<not> validate SHA256 b) (chain self))
   \<and> (filter is_Block_invalid (validateChain_settled SHA256 self) = []
        \<longleftrightarrow> (\<forall>b \<in> set (chain self). validate SHA256 b))
   \<and> (distinct (map height (chain self)) \<longrightarrow>
        \<not> (Block_invalid h \<in> set (validateChain_settled SHA256 self)
           \<and> PreviousBlock_hash_invalid h \<in> set (validateChain_settled SHA256 self)))
   \<and> ((\<forall>b \<in> set (chain self). validate SHA256 b) \<and> i < length (chain self)
        \<and> new_hash \<noteq> hash (chain self ! i) \<longrightarrow>
        filter is_Block_invalid
            (validateChain SHA256 (self\<lparr>chain := (chain self)[i := (chain self ! i)\<lparr>hash := new_hash\<rparr>]\<rparr>))
          = [Block_invalid (height (chain self ! i))]
        \<and> filter is_Block_invalid
            (validateChain_settled SHA256 (self\<lparr>chain := (chain self)[i := (chain self ! i)\<lparr>hash := new_hash\<rparr>]\<rparr>))
          = [Block_invalid (height (chain self ! i))])"
proof -
  have a: "filter is_Block_invalid (validateChain SHA256 s)
      = map (\<lambda>b. Block_invalid (height b)) (filter (\<lambda>b. \<not> validate SHA256 b) (chain s))" for s
    by (simp add: validateChain_eq filter_map comp_def)
  have b: "filter is_Block_invalid (validateChain_settled SHA256 s)
      = map (\<lambda>b. Block_invalid (height b)) (filter (\<lambda>b. \<not> validate SHA256 b) (chain s))" for s
    unfolding validateChain_settled_eq by (rule filter_is_Block_invalid)
  have c: "filter is_Block_invalid (validateChain_settled SHA256 self) = []
      \<longleftrightarrow> (\<forall>b \<in> set (chain self). validate SHA256 b)"
    by (simp add: b filter_empty_conv)
  have d: "\<not> (Block_invalid h \<in> set (validateChain_settled SHA256 self)
           \<and> PreviousBlock_hash_invalid h \<in> set (validateChain_settled SHA256 self))"
    if "distinct (map height (chain self))"
  proof
    assume "Block_invalid h \<in> set (validateChain_settled SHA256 self)
           \<and> PreviousBlock_hash_invalid h \<in> set (validateChain_settled SHA256 self)"
    then obtain x y where "x \<in> set (chain self)" "height x = h" "\<not> validate SHA256 x"
      and "y \<in> set (chain self)" "height y = h" "validate SHA256 y"
      by (auto simp add: validateChain_settled_eq)
    with that show False
      by (metis distinct_map inj_on_def)
  qed
  have e: "filter is_Block_invalid
            (validateChain SHA256 (self\<lparr>chain := (chain self)[i := (chain self ! i)\<lparr>hash := new_hash\<rparr>]\<rparr>))
          = [Block_invalid (height (chain self ! i))]
        \<and> filter is_Block_invalid
            (validateChain_settled SHA256 (self\<lparr>chain := (chain self)[i := (chain self ! i)\<lparr>hash := new_hash\<rparr>]\<rparr>))
          = [Block_invalid (height (chain self ! i))]"
    if "(\<forall>b \<in> set (chain self). validate SHA256 b) \<and> i < length (chain self)
        \<and> new_hash \<noteq> hash (chain self ! i)"
  proof -
    from that have v: "validate SHA256 (chain self ! i)" by simp
    with that have "\<not> validate SHA256 ((chain self ! i)\<lparr>hash := new_hash\<rparr>)"
      by (auto simp add: validate_def)
    with that have "filter (\<lambda>b. \<not> validate SHA256 b) ((chain self)[i := (chain self ! i)\<lparr>hash := new_hash\<rparr>])
        = [(chain self ! i)\<lparr>hash := new_hash\<rparr>]"
      by (intro filter_not_update) simp_all
    then show ?thesis by (simp add: a b)
  qed
  from a [of self] b [of self] c d e show ?thesis by blast
qed

theorem validateChain_invalid_blocks_witness:
  "distinct (map height (chain claimed_store))
   \<and> list_all (validate plain_digest) (chain claimed_store)
   \<and> (0 :: nat) < length (chain claimed_store)
   \<and> Some ''00'' \<noteq> hash (chain claimed_store ! 0)
   \<and> filter is_Block_invalid (validateChain_settled plain_digest claimed_store) = []
   \<and> PreviousBlock_hash_invalid 1 \<in> set (validateChain_settled plain_digest claimed_store)
   \<and> Block_invalid 1 \<notin> set (validateChain_settled plain_digest claimed_store)
   \<and> filter is_Block_invalid
       (validateChain_settled plain_digest
          (claimed_store\<lparr>chain := (chain claimed_store)[0 := (chain claimed_store ! 0)\<lparr>hash := Some ''00''\<rparr>]\<rparr>))
      = [Block_invalid (height (chain claimed_store ! 0))]"
proof -
  from claimed_store_form obtain g b where
    c: "claimed_store = \<lparr>chain = [g, b], chain_height = 1\<rparr>"
    and g: "validate plain_digest g" "height g = 0"
    and b: "validate plain_digest b" "height b = 1" "previousBlockHash b = hash g"
    by blast
  have 1: "distinct (map height (chain claimed_store))"
    using g b by (simp add: c)
  have 2: "\<forall>b \<in> set (chain claimed_store). validate plain_digest b"
    using g b by (simp add: c)
  have 3: "(0 :: nat) < length (chain claimed_store)"
    by (simp add: c)
  have 4: "Some ''00'' \<noteq> hash (chain claimed_store ! 0)"
    using valid_hash_not_00 [OF g(1)] by (auto simp add: c)
  have 5: "PreviousBlock_hash_invalid 1 \<in> set (validateChain_settled plain_digest claimed_store)"
    using g b by (simp add: validateChain_settled_eq c validate_def)
  from validateChain_invalid_blocks [of plain_digest claimed_store 1 0 "Some ''00''"] 1 2 3 4 5
  show ?thesis by (simp add: list_all_iff)
qed

subsection \<open>Queries\<close>

text \<open>
  Claim C8. For a hash that no block has, \<open>getBlockByHash\<close> is to give an explicit
  not-found result. The code tests the array returned by \<open>filter\<close> for truth, which holds
  for every array, so the branch that resolves with \<open>null\<close> is never taken: on a new
  instance the query for a hash that no block has resolves with the empty array (and a query
  that matches resolves with an array holding the block, not with the block).
\<close>

theorem getBlockByHash_miss_is_empty_array:
  "filter (\<lambda>p. hash p = Some ''00'') (chain fresh_store) = []
   \<and> getBlockByHash fresh_store ''00'' = Array []
   \<and> getBlockByHash fresh_store ''00'' \<noteq> Null"
proof -
  from fresh_store_form obtain g where f: "fresh_store = \<lparr>chain = [g], chain_height = 0\<rparr>"
    and g: "validate plain_digest g"
    by blast
  from valid_hash_not_00 [OF g] show ?thesis
    by (simp add: f getBlockByHash_def truthy_array_def)
qed

lemma stars_of_address_filter:
  "map (\<lambda>b. star_of (getBData b)) (filter (\<lambda>b. walletAddress_of (getBData b) = Some address) bs)
     = map Some (stars_of_address address bs)"
  by (induction bs) (auto simp add: walletAddress_of_def star_of_def split: data.splits)

lemma stars_of_address_append:
  "stars_of_address address (bs @ cs) = stars_of_address address bs @ stars_of_address address cs"
  by (induction bs) (auto split: data.splits)

text \<open>
  Claim C9. \<open>getStarsByWalletAddress\<close> returns, in chain order, exactly the stars of the blocks
  whose decoded body is a star claim with the given wallet address (the genesis block has no
  wallet address and never contributes); and after a \<open>submitStar\<close> for that address that
  resolved with a block and left it in the chain, the returned stars include the submitted one.
\<close>

theorem getStarsByWalletAddress_stars:
  "getStarsByWalletAddress self address = map Some (stars_of_address address (chain self))
   \<and> (submitStar SHA256 verify now address message signature the_star self
          = (Resolved (Block_value b), calls, self')
        \<and> chain self' = chain self @ [b]
      \<longrightarrow> Some the_star \<in> set (getStarsByWalletAddress self' address))"
proof (intro conjI impI)
  show q: "getStarsByWalletAddress s address = map Some (stars_of_address address (chain s))" for s
    by (simp add: getStarsByWalletAddress_eq stars_of_address_filter)
  assume a: "submitStar SHA256 verify now address message signature the_star self
          = (Resolved (Block_value b), calls, self')
        \<and> chain self' = chain self @ [b]"
  then have "addBlock SHA256 now (Block (Star_data address message signature the_star)) self
      = (fst (addBlock SHA256 now (Block (Star_data address message signature the_star)) self), self')"
    by (auto simp add: submitStar_def Let_def split_beta split: if_splits)
  from addBlock_committed [OF this] a
  have "body b = Star_data address message signature the_star"
    by (simp add: Block_def)
  with a show "Some the_star \<in> set (getStarsByWalletAddress self' address)"
    by (simp add: q stars_of_address_append getBData_def)
qed

theorem getStarsByWalletAddress_stars_witness:
  "submitStar plain_digest accepting 1691239200 example_address example_message example_signature
       example_star fresh_store
     = (Resolved (Block_value (chain claimed_store ! 1)),
        [(example_message, example_address, example_signature)], claimed_store)
   \<and> chain claimed_store = chain fresh_store @ [chain claimed_store ! 1]
   \<and> getStarsByWalletAddress fresh_store example_address = []
   \<and> getStarsByWalletAddress claimed_store example_address = [Some example_star]
   \<and> Some example_star \<in> set (getStarsByWalletAddress claimed_store example_address)"
proof -
  from fresh_store_submit [of accepting] obtain g b where
    f: "fresh_store = \<lparr>chain = [g], chain_height = 0\<rparr>"
    and s: "submitStar plain_digest accepting 1691239200 example_address example_message
        example_signature example_star fresh_store
      = (Resolved (Block_value b), [(example_message, example_address, example_signature)],
         \<lparr>chain = [g, b], chain_height = 1\<rparr>)"
    and g: "body g = Genesis_Block"
    and b: "body b = Star_data example_address example_message example_signature example_star"
    by (auto simp add: accepting_def)
  have c: "claimed_store = \<lparr>chain = [g, b], chain_height = 1\<rparr>"
    by (simp add: claimed_store_def s)
  have 1: "submitStar plain_digest accepting 1691239200 example_address example_message
        example_signature example_star fresh_store
      = (Resolved (Block_value (chain claimed_store ! 1)),
         [(example_message, example_address, example_signature)], claimed_store)"
    by (simp add: s c)
  have 2: "chain claimed_store = chain fresh_store @ [chain claimed_store ! 1]"
    by (simp add: f c)
  have 3: "stars_of_address example_address (chain fresh_store) = []"
    using g by (simp add: f getBData_def)
  have 4: "stars_of_address example_address (chain claimed_store) = [example_star]"
    using g b by (simp add: c getBData_def)
  from getStarsByWalletAddress_stars [of fresh_store example_address]
  have 5: "getStarsByWalletAddress fresh_store example_address = []"
    by (simp add: 3)
  from getStarsByWalletAddress_stars [of claimed_store example_address plain_digest accepting
      1691239200 example_message example_signature example_star "chain claimed_store ! 1"
      "[(example_message, example_address, example_signature)]" claimed_store]
  have 6: "getStarsByWalletAddress claimed_store example_address = [Some example_star]"
    by (simp add: 4)
  from getStarsByWalletAddress_stars [of fresh_store example_address plain_digest accepting
      1691239200 example_message example_signature example_star "chain claimed_store ! 1"
      "[(example_message, example_address, example_signature)]" claimed_store] 1 2
  have 7: "Some example_star \<in> set (getStarsByWalletAddress claimed_store example_address)"
    by blast
  from 1 2 5 6 7 show ?thesis by blast
qed

end
